theory Spec2Isabelle
  imports Complex_Main "HOL-Library.Word" "HOL-Library.Sublist"
begin

section \<open>Domain model (package domain)\<close>

text \<open>
  The Go types are modelled as follows.
  \<^item> \<open>int\<close> (64 bits on the amd64 build target) is a \<open>64 word\<close>; comparisons are the signed
    ones (\<open><s\<close>, \<open>\<le>s\<close>) and \<open>-\<close> wraps around as in Go.
  \<^item> A \<open>float64\<close> value is modelled by the real number it denotes, and comparisons are those
    of the reals; infinities and NaN are outside the model. The operations that round, the
    product \<open>*\<close> and the conversion \<open>float64(n)\<close> of an \<open>int\<close>, are not computed here: they are
    the parameters \<open>float64_mul\<close> and \<open>float64_of_int\<close> of the environment.
  \<^item> \<open>primitive.ObjectID\<close> is a natural number (0 is the zero id), \<open>time.Time\<close> an integer
    count of seconds (0 is the zero time).
  \<^item> Fields of different structs that share a name get the struct's initial as a prefix.
\<close>

type_synonym int64 = "64 word"
type_synonym float64 = real
type_synonym ObjectID = nat
type_synonym time = int

record ProductImage =
  img_ID :: string
  img_URL :: string
  img_Filename :: string
  img_FilePath :: string
  img_FileSize :: int
  img_MimeType :: string
  img_IsURL :: bool
  img_IsPrimary :: bool
  img_CreatedAt :: time

record Product =
  p_ID :: ObjectID
  p_Name :: string
  p_Description :: string
  p_Price :: float64
  p_Category :: string
  p_Brand :: string
  p_ImageURL :: string
  p_Images :: "ProductImage list"
  p_Stock :: int64
  p_IsActive :: bool
  p_CreatedAt :: time
  p_UpdatedAt :: time

text \<open>The \<open>Product *Product\<close> field of \<open>Sale\<close> is never set by the code modelled here and is left out.\<close>

record Sale =
  s_ID :: ObjectID
  s_ProductID :: ObjectID
  s_Quantity :: int64
  s_Price :: float64
  s_Total :: float64
  s_DateSold :: time
  s_CreatedAt :: time
  s_UpdatedAt :: time

record User =
  u_ID :: ObjectID
  u_Email :: string
  u_Password :: string
  u_Name :: string
  u_Role :: string
  u_IsActive :: bool
  u_CreatedAt :: time
  u_UpdatedAt :: time

record CreateSaleRequest =
  csr_ProductID :: ObjectID
  csr_Quantity :: int64
  csr_Price :: float64

record CreateProductRequest =
  cpr_Name :: string
  cpr_Description :: string
  cpr_Price :: float64
  cpr_Category :: string
  cpr_Brand :: string
  cpr_ImageURL :: string
  cpr_ImageURLs :: "string list"
  cpr_Stock :: int64

text \<open>\<open>IsActive *bool\<close> is an option: \<open>None\<close> is the nil pointer.\<close>

record UpdateProductRequest =
  upr_Name :: string
  upr_Description :: string
  upr_Price :: float64
  upr_Category :: string
  upr_Brand :: string
  upr_ImageURL :: string
  upr_ImageURLs :: "string list"
  upr_Stock :: int64
  upr_IsActive :: "bool option"

record ProductFilter =
  pf_Category :: string
  pf_Brand :: string
  pf_MinPrice :: float64
  pf_MaxPrice :: float64
  pf_IsActive :: "bool option"
  pf_Search :: string
  pf_Page :: int64
  pf_Limit :: int64

record CreateUserRequest =
  cur_Email :: string
  cur_Password :: string
  cur_Name :: string
  cur_Role :: string

text \<open>
  Go errors are values made by \<open>errors.New\<close>; each message the use cases produce is a
  constructor. \<open>StorageFailure\<close> stands for any error returned by the MongoDB driver,
  \<open>HashFailure\<close> for an error of \<open>bcrypt.GenerateFromPassword\<close>, \<open>RemoveFailure\<close> for an
  error of \<open>os.Remove\<close>.
\<close>

datatype error =
    ProductNotFound        \<comment> \<open>"product not found"\<close>
  | InsufficientStock      \<comment> \<open>"insufficient stock"\<close>
  | UnsupportedFormat      \<comment> \<open>"unsupported format"\<close>
  | UserAlreadyExists      \<comment> \<open>"user already exists"\<close>
  | OutsideUploadDir       \<comment> \<open>"file path is outside upload directory"\<close>
  | StorageFailure
  | HashFailure
  | RemoveFailure

section \<open>The storage collaborator\<close>

text \<open>
  A collection is the list of its documents in insertion order. Every driver call may fail;
  \<open>failing\<close> is the set of calls that fail in the state at hand. A failing call returns
  \<open>StorageFailure\<close> and leaves the collections as they are.
\<close>

datatype storage_op =
    ProductInsertOne | ProductFindOne | ProductUpdateOne | ProductUpdateStock
  | ProductFind | ProductCountDocuments
  | SaleInsertOne | SaleFind
  | UserFindOne | UserInsertOne

record store =
  products :: "Product list"
  sales :: "Sale list"
  users :: "User list"
  failing :: "storage_op set"

text \<open>
  What an operation reads from outside: the clock (\<open>time.Now()\<close>; all reads within one
  operation give the same instant), the id \<open>primitive.NewObjectID()\<close> returns, the strings
  \<open>uuid.New().String()\<close> returns (indexed by the length of the image list a new image joins),
  \<open>bcrypt.GenerateFromPassword\<close>, and the machine's \<open>float64\<close> arithmetic: the product and the
  conversion from \<open>int\<close>.
\<close>

record env =
  now :: time
  new_object_id :: ObjectID
  uuid :: "nat \<Rightarrow> string"
  bcrypt :: "string \<Rightarrow> string option"
  float64_mul :: "float64 \<Rightarrow> float64 \<Rightarrow> float64"
  float64_of_int :: "int64 \<Rightarrow> float64"

text \<open>\<open>UpdateOne\<close>: the first document that matches the filter is changed, if there is one.\<close>

fun update_one :: "('a \<Rightarrow> bool) \<Rightarrow> ('a \<Rightarrow> 'a) \<Rightarrow> 'a list \<Rightarrow> 'a list" where
  "update_one P f [] = []"
| "update_one P f (x # xs) = (if P x then f x # xs else x # update_one P f xs)"

subsection \<open>productRepository (product\_repository.go)\<close>

definition productRepo_GetByID :: "store \<Rightarrow> ObjectID \<Rightarrow> error + Product option" where
  "productRepo_GetByID st id' =
     (if ProductFindOne \<in> failing st then Inl StorageFailure
      else Inr (find (\<lambda>p. p_ID p = id') (products st)))"

definition productRepo_Create :: "env \<Rightarrow> store \<Rightarrow> Product \<Rightarrow> Product \<times> store \<times> error option" where
  "productRepo_Create e st product =
     (let product' = product\<lparr>p_ID := new_object_id e, p_CreatedAt := now e, p_UpdatedAt := now e\<rparr>
      in if ProductInsertOne \<in> failing st then (product', st, Some StorageFailure)
         else (product', st\<lparr>products := products st @ [product']\<rparr>, None))"

definition productRepo_Update :: "env \<Rightarrow> store \<Rightarrow> Product \<Rightarrow> Product \<times> store \<times> error option" where
  "productRepo_Update e st product =
     (let product' = product\<lparr>p_UpdatedAt := now e\<rparr>
      in if ProductUpdateOne \<in> failing st then (product', st, Some StorageFailure)
         else (product',
               st\<lparr>products := update_one (\<lambda>p. p_ID p = p_ID product') (\<lambda>_. product') (products st)\<rparr>,
               None))"

definition productRepo_UpdateStock :: "env \<Rightarrow> store \<Rightarrow> ObjectID \<Rightarrow> int64 \<Rightarrow> store \<times> error option" where
  "productRepo_UpdateStock e st id' stock =
     (if ProductUpdateStock \<in> failing st then (st, Some StorageFailure)
      else (st\<lparr>products := update_one (\<lambda>p. p_ID p = id')
                                (\<lambda>p. p\<lparr>p_Stock := stock, p_UpdatedAt := now e\<rparr>) (products st)\<rparr>,
            None))"

subsection \<open>saleRepository\<close>

definition saleRepo_Create :: "env \<Rightarrow> store \<Rightarrow> Sale \<Rightarrow> Sale \<times> store \<times> error option" where
  "saleRepo_Create e st sale =
     (let sale' = sale\<lparr>s_ID := new_object_id e, s_CreatedAt := now e, s_UpdatedAt := now e\<rparr>
      in if SaleInsertOne \<in> failing st then (sale', st, Some StorageFailure)
         else (sale', st\<lparr>sales := sales st @ [sale']\<rparr>, None))"

section \<open>Sales\<close>

subsection \<open>SaleUseCase.CreateSale (inventory\_usecase.go)\<close>

definition SaleUseCase_CreateSale :: "env \<Rightarrow> store \<Rightarrow> CreateSaleRequest \<Rightarrow> store \<times> (error + Sale)" where
  "SaleUseCase_CreateSale e st req =
     (case productRepo_GetByID st (csr_ProductID req) of
        Inl err \<Rightarrow> (st, Inl err)
      | Inr None \<Rightarrow> (st, Inl ProductNotFound)
      | Inr (Some product) \<Rightarrow>
          if p_Stock product <s csr_Quantity req then (st, Inl InsufficientStock)
          else
            let total = float64_mul e (csr_Price req) (float64_of_int e (csr_Quantity req));
                sale = \<lparr>s_ID = 0, s_ProductID = csr_ProductID req, s_Quantity = csr_Quantity req,
                        s_Price = csr_Price req, s_Total = total, s_DateSold = now e,
                        s_CreatedAt = 0, s_UpdatedAt = 0\<rparr>
            in (case saleRepo_Create e st sale of
                  (sale', st1, Some err) \<Rightarrow> (st1, Inl err)
                | (sale', st1, None) \<Rightarrow>
                    let newStock = p_Stock product - csr_Quantity req
                    in (case productRepo_UpdateStock e st1 (csr_ProductID req) newStock of
                          (st2, Some err) \<Rightarrow> (st2, Inl err)
                        | (st2, None) \<Rightarrow> (st2, Inr sale'))))"

subsection \<open>SalesUseCase.CreateSale (sales\_usecase.go)\<close>

definition SalesUseCase_CreateSale :: "env \<Rightarrow> store \<Rightarrow> CreateSaleRequest \<Rightarrow> store \<times> (error + Sale)" where
  "SalesUseCase_CreateSale e st req =
     (case productRepo_GetByID st (csr_ProductID req) of
        Inl err \<Rightarrow> (st, Inl err)
      | Inr None \<Rightarrow> (st, Inl ProductNotFound)
      | Inr (Some product) \<Rightarrow>
          if p_Stock product <s csr_Quantity req then (st, Inl InsufficientStock)
          else
            let total = float64_mul e (p_Price product) (float64_of_int e (csr_Quantity req));
                sale = \<lparr>s_ID = 0, s_ProductID = csr_ProductID req, s_Quantity = csr_Quantity req,
                        s_Price = p_Price product, s_Total = total, s_DateSold = now e,
                        s_CreatedAt = 0, s_UpdatedAt = 0\<rparr>
            in (case saleRepo_Create e st sale of
                  (sale', st1, Some err) \<Rightarrow> (st1, Inl err)
                | (sale', st1, None) \<Rightarrow>
                    let product1 = product\<lparr>p_Stock := p_Stock product - csr_Quantity req\<rparr>
                    in (case productRepo_Update e st1 product1 of
                          (product2, st2, Some err) \<Rightarrow> (st2, Inl err)
                        | (product2, st2, None) \<Rightarrow> (st2, Inr sale'))))"

text \<open>The stock a later lookup of the product sees.\<close>

definition stock_of :: "store \<Rightarrow> ObjectID \<Rightarrow> int64 option" where
  "stock_of st id' = map_option p_Stock (find (\<lambda>p. p_ID p = id') (products st))"

text \<open>
  The sale document either implementation hands to \<open>InsertOne\<close>, after \<open>saleRepository.Create\<close>
  has filled in the id and the timestamps: product \<open>pid\<close>, quantity \<open>q\<close>, recorded price
  \<open>price\<close>.
\<close>

definition recorded_sale :: "env \<Rightarrow> ObjectID \<Rightarrow> int64 \<Rightarrow> float64 \<Rightarrow> Sale" where
  "recorded_sale e pid q price =
     \<lparr>s_ID = new_object_id e, s_ProductID = pid, s_Quantity = q, s_Price = price,
      s_Total = float64_mul e price (float64_of_int e q), s_DateSold = now e,
      s_CreatedAt = now e, s_UpdatedAt = now e\<rparr>"

section \<open>Catalog: ProductUseCase\<close>

text \<open>
  A URL-based image as the use case builds it; \<open>n\<close> indexes the generated uuid and is the
  length of the image list the new image is added to.
\<close>

definition url_image :: "env \<Rightarrow> nat \<Rightarrow> string \<Rightarrow> bool \<Rightarrow> ProductImage" where
  "url_image e n url primary =
     \<lparr>img_ID = uuid e n, img_URL = url, img_Filename = [], img_FilePath = [], img_FileSize = 0,
      img_MimeType = [], img_IsURL = True, img_IsPrimary = primary, img_CreatedAt = now e\<rparr>"

text \<open>The struct literal both create paths start from; fields not listed are zero values.\<close>

definition new_product :: "CreateProductRequest \<Rightarrow> Product" where
  "new_product req =
     \<lparr>p_ID = 0, p_Name = cpr_Name req, p_Description = cpr_Description req,
      p_Price = cpr_Price req, p_Category = cpr_Category req, p_Brand = cpr_Brand req,
      p_ImageURL = cpr_ImageURL req, p_Images = [], p_Stock = cpr_Stock req, p_IsActive = True,
      p_CreatedAt = 0, p_UpdatedAt = 0\<rparr>"

subsection \<open>CreateProduct\<close>

text \<open>\<open>for i, url := range req.ImageURLs\<close> with \<open>IsPrimary: i == 0\<close>; \<open>i\<close> is the index in the request.\<close>

fun CreateProduct_urls :: "env \<Rightarrow> nat \<Rightarrow> string list \<Rightarrow> ProductImage list \<Rightarrow> ProductImage list" where
  "CreateProduct_urls e i [] images = images"
| "CreateProduct_urls e i (url # urls) images =
     CreateProduct_urls e (Suc i) urls
       (if url \<noteq> [] then images @ [url_image e (length images) url (i = 0)] else images)"

definition CreateProduct :: "env \<Rightarrow> store \<Rightarrow> CreateProductRequest \<Rightarrow> store \<times> (error + Product)" where
  "CreateProduct e st req =
     (let product = new_product req;
          images1 = (if length (cpr_ImageURLs req) > 0
                     then CreateProduct_urls e 0 (cpr_ImageURLs req) (p_Images product)
                     else p_Images product);
          images2 = (if cpr_ImageURL req \<noteq> [] \<and> length images1 = 0
                     then images1 @ [url_image e (length images1) (cpr_ImageURL req) True]
                     else images1)
      in (case productRepo_Create e st (product\<lparr>p_Images := images2\<rparr>) of
            (product', st', Some err) \<Rightarrow> (st', Inl err)
          | (product', st', None) \<Rightarrow> (st', Inr product')))"

subsection \<open>CreateProductWithImages\<close>

text \<open>
  \<open>for _, url := range req.ImageURLs\<close> with \<open>IsPrimary: len(images) == 0\<close>; the loop has the
  same text in \<open>CreateProductWithImages\<close> and in \<open>UpdateProductWithImages\<close>.
\<close>

fun WithImages_urls :: "env \<Rightarrow> string list \<Rightarrow> ProductImage list \<Rightarrow> ProductImage list" where
  "WithImages_urls e [] images = images"
| "WithImages_urls e (url # urls) images =
     WithImages_urls e urls
       (if url \<noteq> [] then images @ [url_image e (length images) url (length images = 0)]
        else images)"

text \<open>The search loop \<open>for _, img := range images { if img.IsPrimary { ...; break } }\<close>.\<close>

fun hasPrimary :: "ProductImage list \<Rightarrow> bool" where
  "hasPrimary [] = False"
| "hasPrimary (img # imgs) = (if img_IsPrimary img then True else hasPrimary imgs)"

text \<open>"Ensure at least one image is marked as primary".\<close>

definition ensure_primary :: "ProductImage list \<Rightarrow> ProductImage list" where
  "ensure_primary images =
     (if length images > 0
      then (if \<not> hasPrimary images then images[0 := (images ! 0)\<lparr>img_IsPrimary := True\<rparr>]
            else images)
      else images)"

definition CreateProductWithImages ::
  "env \<Rightarrow> store \<Rightarrow> CreateProductRequest \<Rightarrow> ProductImage list \<Rightarrow> store \<times> (error + Product)" where
  "CreateProductWithImages e st req uploadedImages =
     (let product = new_product req;
          images0 = p_Images product @ uploadedImages;
          images1 = (if length (cpr_ImageURLs req) > 0
                     then WithImages_urls e (cpr_ImageURLs req) images0 else images0);
          images2 = (if cpr_ImageURL req \<noteq> [] \<and> length images1 = 0
                     then images1 @ [url_image e (length images1) (cpr_ImageURL req) True]
                     else images1);
          images3 = ensure_primary images2
      in (case productRepo_Create e st (product\<lparr>p_Images := images3\<rparr>) of
            (product', st', Some err) \<Rightarrow> (st', Inl err)
          | (product', st', None) \<Rightarrow> (st', Inr product')))"

subsection \<open>UpdateProduct\<close>

text \<open>
  The loop over \<open>product.Images\<close> that keeps the legacy URL in step with the image list. It
  stops at the first URL image that already has the URL, or at the first primary URL image,
  whose URL it overwrites. The result is the image list and \<open>hasLegacyImage\<close>.
\<close>

fun legacy_scan :: "string \<Rightarrow> string \<Rightarrow> ProductImage list \<Rightarrow> ProductImage list \<times> bool" where
  "legacy_scan imageURL reqURL [] = ([], False)"
| "legacy_scan imageURL reqURL (img # imgs) =
     (if img_IsURL img \<and> img_URL img = imageURL then (img # imgs, True)
      else if img_IsURL img \<and> img_IsPrimary img then (img\<lparr>img_URL := reqURL\<rparr> # imgs, True)
      else (case legacy_scan imageURL reqURL imgs of (imgs', found) \<Rightarrow> (img # imgs', found)))"

definition UpdateProduct_legacy :: "env \<Rightarrow> UpdateProductRequest \<Rightarrow> Product \<Rightarrow> Product" where
  "UpdateProduct_legacy e req product =
     (let product1 = product\<lparr>p_ImageURL := upr_ImageURL req\<rparr>
      in (case legacy_scan (p_ImageURL product1) (upr_ImageURL req) (p_Images product1) of
            (images, hasLegacyImage) \<Rightarrow>
              if \<not> hasLegacyImage
              then product1\<lparr>p_Images :=
                     url_image e (length (p_Images product1)) (upr_ImageURL req) True # images\<rparr>
              else product1\<lparr>p_Images := images\<rparr>))"

text \<open>\<open>for i, url := range req.ImageURLs\<close> with \<open>IsPrimary: i == 0 && len(newImages) == 0\<close>.\<close>

fun UpdateProduct_urls :: "env \<Rightarrow> nat \<Rightarrow> string list \<Rightarrow> ProductImage list \<Rightarrow> ProductImage list" where
  "UpdateProduct_urls e i [] newImages = newImages"
| "UpdateProduct_urls e i (url # urls) newImages =
     UpdateProduct_urls e (Suc i) urls
       (if url \<noteq> []
        then newImages @ [url_image e (length newImages) url (i = 0 \<and> length newImages = 0)]
        else newImages)"

definition UpdateProduct ::
  "env \<Rightarrow> store \<Rightarrow> ObjectID \<Rightarrow> UpdateProductRequest \<Rightarrow> store \<times> (error + Product)" where
  "UpdateProduct e st id' req =
     (case productRepo_GetByID st id' of
        Inl err \<Rightarrow> (st, Inl err)
      | Inr None \<Rightarrow> (st, Inl ProductNotFound)
      | Inr (Some product) \<Rightarrow>
          let p1 = (if upr_Name req \<noteq> [] then product\<lparr>p_Name := upr_Name req\<rparr> else product);
              p2 = (if upr_Description req \<noteq> [] then p1\<lparr>p_Description := upr_Description req\<rparr> else p1);
              p3 = (if upr_Price req > 0 then p2\<lparr>p_Price := upr_Price req\<rparr> else p2);
              p4 = (if upr_Category req \<noteq> [] then p3\<lparr>p_Category := upr_Category req\<rparr> else p3);
              p5 = (if upr_Brand req \<noteq> [] then p4\<lparr>p_Brand := upr_Brand req\<rparr> else p4);
              p6 = (if upr_ImageURL req \<noteq> [] then UpdateProduct_legacy e req p5 else p5);
              p7 = (if 0 \<le>s upr_Stock req then p6\<lparr>p_Stock := upr_Stock req\<rparr> else p6);
              p8 = (case upr_IsActive req of None \<Rightarrow> p7 | Some b \<Rightarrow> p7\<lparr>p_IsActive := b\<rparr>);
              p9 = (if length (upr_ImageURLs req) > 0
                    then p8\<lparr>p_Images := UpdateProduct_urls e 0 (upr_ImageURLs req)
                                           (filter (\<lambda>img. \<not> img_IsURL img) (p_Images p8))\<rparr>
                    else p8)
          in (case productRepo_Update e st p9 of
                (product', st', Some err) \<Rightarrow> (st', Inl err)
              | (product', st', None) \<Rightarrow> (st', Inr product')))"

subsection \<open>UpdateProductWithImages\<close>

definition UpdateProductWithImages ::
  "env \<Rightarrow> store \<Rightarrow> ObjectID \<Rightarrow> UpdateProductRequest \<Rightarrow> ProductImage list \<Rightarrow> store \<times> (error + Product)" where
  "UpdateProductWithImages e st id' req uploadedImages =
     (case productRepo_GetByID st id' of
        Inl err \<Rightarrow> (st, Inl err)
      | Inr None \<Rightarrow> (st, Inl ProductNotFound)
      | Inr (Some product) \<Rightarrow>
          let p1 = (if upr_Name req \<noteq> [] then product\<lparr>p_Name := upr_Name req\<rparr> else product);
              p2 = (if upr_Description req \<noteq> [] then p1\<lparr>p_Description := upr_Description req\<rparr> else p1);
              p3 = (if upr_Price req > 0 then p2\<lparr>p_Price := upr_Price req\<rparr> else p2);
              p4 = (if upr_Category req \<noteq> [] then p3\<lparr>p_Category := upr_Category req\<rparr> else p3);
              p5 = (if upr_Brand req \<noteq> [] then p4\<lparr>p_Brand := upr_Brand req\<rparr> else p4);
              p6 = (if 0 \<le>s upr_Stock req then p5\<lparr>p_Stock := upr_Stock req\<rparr> else p5);
              p7 = (case upr_IsActive req of None \<Rightarrow> p6 | Some b \<Rightarrow> p6\<lparr>p_IsActive := b\<rparr>);
              newImages0 = uploadedImages;
              newImages1 = (if length (upr_ImageURLs req) > 0
                            then WithImages_urls e (upr_ImageURLs req) newImages0 else newImages0);
              legacy = (upr_ImageURL req \<noteq> [] \<and> length newImages1 = 0);
              newImages2 = (if legacy
                            then newImages1 @ [url_image e (length newImages1) (upr_ImageURL req) True]
                            else newImages1);
              p8 = (if legacy then p7\<lparr>p_ImageURL := upr_ImageURL req\<rparr> else p7);
              p9 = p8\<lparr>p_Images := ensure_primary newImages2\<rparr>
          in (case productRepo_Update e st p9 of
                (product', st', Some err) \<Rightarrow> (st', Inl err)
              | (product', st', None) \<Rightarrow> (st', Inr product')))"

text \<open>How many images of a collection are flagged primary.\<close>

definition primary_count :: "ProductImage list \<Rightarrow> nat" where
  "primary_count images = length (filter img_IsPrimary images)"

section \<open>Catalog: productRepository.List and productRepository.Count\<close>

text \<open>
  The \<open>bson.M\<close> query document both methods build has at most five keys; an absent key is
  \<open>None\<close>. The value under \<open>price\<close> is itself a document with optional \<open>$gte\<close> and \<open>$lte\<close>.
  The value under \<open>name\<close> is the pattern of \<open>{$regex: pattern, $options: "i"}\<close>.
\<close>

record priceFilter =
  price_gte :: "float64 option"
  price_lte :: "float64 option"

record mongoFilter =
  mf_category :: "string option"
  mf_brand :: "string option"
  mf_price :: "priceFilter option"
  mf_is_active :: "bool option"
  mf_name :: "string option"

definition bson_M_empty :: mongoFilter where
  "bson_M_empty = \<lparr>mf_category = None, mf_brand = None, mf_price = None, mf_is_active = None,
                    mf_name = None\<rparr>"

text \<open>The filter built by \<open>List\<close> (product\_repository.go, lines 72 to 96).\<close>

definition List_mongoFilter :: "ProductFilter \<Rightarrow> mongoFilter" where
  "List_mongoFilter flt =
     (let m0 = bson_M_empty;
          m1 = (if pf_Category flt \<noteq> [] then m0\<lparr>mf_category := Some (pf_Category flt)\<rparr> else m0);
          m2 = (if pf_Brand flt \<noteq> [] then m1\<lparr>mf_brand := Some (pf_Brand flt)\<rparr> else m1);
          m3 = (if pf_MinPrice flt > 0 \<or> pf_MaxPrice flt > 0
                then (let pr0 = \<lparr>price_gte = None, price_lte = None\<rparr>;
                          pr1 = (if pf_MinPrice flt > 0
                                 then pr0\<lparr>price_gte := Some (pf_MinPrice flt)\<rparr> else pr0);
                          pr2 = (if pf_MaxPrice flt > 0
                                 then pr1\<lparr>price_lte := Some (pf_MaxPrice flt)\<rparr> else pr1)
                      in m2\<lparr>mf_price := Some pr2\<rparr>)
                else m2);
          m4 = (case pf_IsActive flt of None \<Rightarrow> m3 | Some b \<Rightarrow> m3\<lparr>mf_is_active := Some b\<rparr>);
          m5 = (if pf_Search flt \<noteq> [] then m4\<lparr>mf_name := Some (pf_Search flt)\<rparr> else m4)
      in m5)"

text \<open>The filter built by \<open>Count\<close> (product\_repository.go, lines 132 to 156).\<close>

definition Count_mongoFilter :: "ProductFilter \<Rightarrow> mongoFilter" where
  "Count_mongoFilter flt =
     (let m0 = bson_M_empty;
          m1 = (if pf_Category flt \<noteq> [] then m0\<lparr>mf_category := Some (pf_Category flt)\<rparr> else m0);
          m2 = (if pf_Brand flt \<noteq> [] then m1\<lparr>mf_brand := Some (pf_Brand flt)\<rparr> else m1);
          m3 = (if pf_MinPrice flt > 0 \<or> pf_MaxPrice flt > 0
                then (let pr0 = \<lparr>price_gte = None, price_lte = None\<rparr>;
                          pr1 = (if pf_MinPrice flt > 0
                                 then pr0\<lparr>price_gte := Some (pf_MinPrice flt)\<rparr> else pr0);
                          pr2 = (if pf_MaxPrice flt > 0
                                 then pr1\<lparr>price_lte := Some (pf_MaxPrice flt)\<rparr> else pr1)
                      in m2\<lparr>mf_price := Some pr2\<rparr>)
                else m2);
          m4 = (case pf_IsActive flt of None \<Rightarrow> m3 | Some b \<Rightarrow> m3\<lparr>mf_is_active := Some b\<rparr>);
          m5 = (if pf_Search flt \<noteq> [] then m4\<lparr>mf_name := Some (pf_Search flt)\<rparr> else m4)
      in m5)"

text \<open>
  The server's regular-expression matcher is a parameter: \<open>rx pattern\<close> is \<open>None\<close> when the
  pattern does not compile (the server then rejects the query), and otherwise the
  case-insensitive match predicate on strings.
\<close>

type_synonym regex_engine = "string \<Rightarrow> (string \<Rightarrow> bool) option"

definition query_ok :: "regex_engine \<Rightarrow> mongoFilter \<Rightarrow> bool" where
  "query_ok rx m = (case mf_name m of None \<Rightarrow> True | Some pattern \<Rightarrow> rx pattern \<noteq> None)"

text \<open>When a product document satisfies a query document: every key present must hold.\<close>

definition matches :: "regex_engine \<Rightarrow> mongoFilter \<Rightarrow> Product \<Rightarrow> bool" where
  "matches rx m p =
     ((case mf_category m of None \<Rightarrow> True | Some c \<Rightarrow> p_Category p = c) \<and>
      (case mf_brand m of None \<Rightarrow> True | Some b \<Rightarrow> p_Brand p = b) \<and>
      (case mf_price m of None \<Rightarrow> True
       | Some pr \<Rightarrow> (case price_gte pr of None \<Rightarrow> True | Some lo \<Rightarrow> lo \<le> p_Price p) \<and>
                   (case price_lte pr of None \<Rightarrow> True | Some hi \<Rightarrow> p_Price p \<le> hi)) \<and>
      (case mf_is_active m of None \<Rightarrow> True | Some a \<Rightarrow> p_IsActive p = a) \<and>
      (case mf_name m of None \<Rightarrow> True
       | Some pattern \<Rightarrow> (case rx pattern of None \<Rightarrow> False | Some re \<Rightarrow> re (p_Name p))))"

text \<open>
  \<open>List\<close>: \<open>Find\<close> with the filter, sorted by \<open>created_at\<close> descending, and with skip and limit
  only when \<open>Page > 0 && Limit > 0\<close>. \<open>skip := (Page - 1) * Limit\<close> is computed in \<open>int\<close>; the
  server rejects a negative skip.
\<close>

definition productRepo_List :: "regex_engine \<Rightarrow> store \<Rightarrow> ProductFilter \<Rightarrow> error + Product list" where
  "productRepo_List rx st flt =
     (let mongoFilter = List_mongoFilter flt
      in if ProductFind \<in> failing st \<or> \<not> query_ok rx mongoFilter then Inl StorageFailure
         else
           let found = rev (sort_key p_CreatedAt (filter (matches rx mongoFilter) (products st)))
           in if 0 <s pf_Page flt \<and> 0 <s pf_Limit flt
              then (let skip = (pf_Page flt - 1) * pf_Limit flt
                    in if skip <s 0 then Inl StorageFailure
                       else Inr (take (unat (pf_Limit flt)) (drop (unat skip) found)))
              else Inr found)"

text \<open>\<open>Count\<close>: \<open>CountDocuments\<close> with the filter; the \<open>int64\<close> result is an integer here.\<close>

definition productRepo_Count :: "regex_engine \<Rightarrow> store \<Rightarrow> ProductFilter \<Rightarrow> error + int" where
  "productRepo_Count rx st flt =
     (let mongoFilter = Count_mongoFilter flt
      in if ProductCountDocuments \<in> failing st \<or> \<not> query_ok rx mongoFilter then Inl StorageFailure
         else Inr (int (length (filter (matches rx mongoFilter) (products st)))))"

section \<open>Sales: SalesUseCase.ExportSales\<close>

text \<open>\<open>saleRepository.GetSalesByDateRange\<close>: the sales of the inclusive range, newest first.\<close>

definition in_range :: "time \<Rightarrow> time \<Rightarrow> Sale \<Rightarrow> bool" where
  "in_range fromDate toDate sale = (fromDate \<le> s_DateSold sale \<and> s_DateSold sale \<le> toDate)"

definition saleRepo_GetSalesByDateRange :: "store \<Rightarrow> time \<Rightarrow> time \<Rightarrow> error + Sale list" where
  "saleRepo_GetSalesByDateRange st fromDate toDate =
     (if SaleFind \<in> failing st then Inl StorageFailure
      else Inr (rev (sort_key s_DateSold (filter (in_range fromDate toDate) (sales st)))))"

text \<open>
  The library formatters \<open>ExportSales\<close> calls are parameters: \<open>ObjectID.Hex()\<close>, \<open>%d\<close>,
  \<open>%.2f\<close> and \<open>Time.Format("2006-01-02 15:04:05")\<close>.
\<close>

record formatter =
  Hex :: "ObjectID \<Rightarrow> string"
  fmt_d :: "int64 \<Rightarrow> string"
  fmt_2f :: "float64 \<Rightarrow> string"
  fmt_time :: "time \<Rightarrow> string"

definition newline :: string where
  "newline = [CHR 0x0A]"

definition csv_header :: string where
  "csv_header = ''ID,Product ID,Product Name,Quantity,Price,Total,Date Sold'' @ newline"

text \<open>
  \<open>product, _ := u.productRepo.GetByID(ctx, sale.ProductID)\<close>: the error is dropped, and a nil
  product gives the name "Unknown".
\<close>

definition productName :: "store \<Rightarrow> Sale \<Rightarrow> string" where
  "productName st sale =
     (case productRepo_GetByID st (s_ProductID sale) of
        Inr (Some product) \<Rightarrow> p_Name product
      | _ \<Rightarrow> ''Unknown'')"

text \<open>The row \<open>fmt.Sprintf("%s,%s,%s,%d,%.2f,%.2f,%s\n", ...)\<close> writes for one sale.\<close>

definition csv_row :: "formatter \<Rightarrow> store \<Rightarrow> Sale \<Rightarrow> string" where
  "csv_row fm st sale =
     Hex fm (s_ID sale) @ '','' @ Hex fm (s_ProductID sale) @ '','' @ productName st sale @ '','' @
     fmt_d fm (s_Quantity sale) @ '','' @ fmt_2f fm (s_Price sale) @ '','' @
     fmt_2f fm (s_Total sale) @ '','' @ fmt_time fm (s_DateSold sale) @ newline"

text \<open>The loop over the sales; the last argument is the content of the \<open>strings.Builder\<close>.\<close>

fun ExportSales_rows :: "formatter \<Rightarrow> store \<Rightarrow> Sale list \<Rightarrow> string \<Rightarrow> string" where
  "ExportSales_rows fm st [] csvBuilder = csvBuilder"
| "ExportSales_rows fm st (sale # rest) csvBuilder =
     ExportSales_rows fm st rest (csvBuilder @ csv_row fm st sale)"

definition ExportSales :: "formatter \<Rightarrow> store \<Rightarrow> time \<Rightarrow> time \<Rightarrow> string \<Rightarrow> error + string" where
  "ExportSales fm st fromDate toDate format =
     (if format \<noteq> ''csv'' then Inl UnsupportedFormat
      else (case saleRepo_GetSalesByDateRange st fromDate toDate of
              Inl err \<Rightarrow> Inl err
            | Inr sales' \<Rightarrow> Inr (ExportSales_rows fm st sales' csv_header)))"

section \<open>Image attachment: UploadConfig.DeleteFile\<close>

record UploadConfig =
  UploadDir :: string
  MaxFileSize :: int
  AllowedTypes :: "string set"

definition NewUploadConfig :: UploadConfig where
  "NewUploadConfig =
     \<lparr>UploadDir = ''uploads/products'', MaxFileSize = 5 * 1024 * 1024,
      AllowedTypes = {''image/jpeg'', ''image/jpg'', ''image/png'', ''image/gif'', ''image/webp''}\<rparr>"

text \<open>
  The file system resolves a path component by component. A location is a flag (the path
  is absolute) and the components that remain once empty components and \<open>.\<close> are dropped and
  every \<open>..\<close> has removed the component before it. Symbolic links are not modelled.
\<close>

fun split_on :: "char \<Rightarrow> string \<Rightarrow> string list" where
  "split_on c [] = [[]]"
| "split_on c (x # xs) =
     (if x = c then [] # split_on c xs
      else (case split_on c xs of [] \<Rightarrow> [[x]] | y # ys \<Rightarrow> (x # y) # ys))"

fun resolve_components :: "bool \<Rightarrow> string list \<Rightarrow> string list \<Rightarrow> string list" where
  "resolve_components rooted stack [] = rev stack"
| "resolve_components rooted stack (c # cs) =
     (if c = [] \<or> c = ''.'' then resolve_components rooted stack cs
      else if c = ''..'' then
        (case stack of
           [] \<Rightarrow> if rooted then resolve_components rooted [] cs
                 else resolve_components rooted [''..''] cs
         | s # ss \<Rightarrow> if s = ''..'' then resolve_components rooted (''..'' # stack) cs
                     else resolve_components rooted ss cs)
      else resolve_components rooted (c # stack) cs)"

type_synonym location = "bool \<times> string list"

definition resolve :: "string \<Rightarrow> location" where
  "resolve path =
     (let rooted = prefix ''/'' path
      in (rooted, resolve_components rooted [] (split_on CHR ''/'' path)))"

text \<open>
  The notion the claim is about, which the code has no counterpart of: \<open>path\<close> resolves to a
  location inside the directory \<open>dir\<close>.
\<close>

definition inside_dir :: "string \<Rightarrow> string \<Rightarrow> bool" where
  "inside_dir dir path =
     (fst (resolve path) = fst (resolve dir) \<and> prefix (snd (resolve dir)) (snd (resolve path)))"

text \<open>The files on disk are a set of locations; \<open>os.Remove\<close> fails when there is no such file.\<close>

type_synonym filesystem = "location set"

definition os_Remove :: "filesystem \<Rightarrow> string \<Rightarrow> filesystem \<times> error option" where
  "os_Remove fs path =
     (if resolve path \<in> fs then (fs - {resolve path}, None) else (fs, Some RemoveFailure))"

definition DeleteFile :: "UploadConfig \<Rightarrow> filesystem \<Rightarrow> string \<Rightarrow> filesystem \<times> error option" where
  "DeleteFile uc fs filePath =
     (if filePath = [] then (fs, None)
      else if \<not> prefix (UploadDir uc) filePath then (fs, Some OutsideUploadDir)
      else os_Remove fs filePath)"

section \<open>Credentials: AuthUseCase.Register\<close>

definition userRepo_GetByEmail :: "store \<Rightarrow> string \<Rightarrow> error + User option" where
  "userRepo_GetByEmail st email =
     (if UserFindOne \<in> failing st then Inl StorageFailure
      else Inr (find (\<lambda>u. u_Email u = email) (users st)))"

definition userRepo_Create :: "env \<Rightarrow> store \<Rightarrow> User \<Rightarrow> User \<times> store \<times> error option" where
  "userRepo_Create e st user =
     (let user' = user\<lparr>u_ID := new_object_id e, u_CreatedAt := now e, u_UpdatedAt := now e\<rparr>
      in if UserInsertOne \<in> failing st then (user', st, Some StorageFailure)
         else (user', st\<lparr>users := users st @ [user']\<rparr>, None))"

definition Register :: "env \<Rightarrow> store \<Rightarrow> CreateUserRequest \<Rightarrow> store \<times> (error + User)" where
  "Register e st req =
     (case userRepo_GetByEmail st (cur_Email req) of
        Inl err \<Rightarrow> (st, Inl err)
      | Inr (Some existingUser) \<Rightarrow> (st, Inl UserAlreadyExists)
      | Inr None \<Rightarrow>
          (case bcrypt e (cur_Password req) of
             None \<Rightarrow> (st, Inl HashFailure)
           | Some hashedPassword \<Rightarrow>
               let role = (if cur_Role req = [] then ''user'' else cur_Role req);
                   user = \<lparr>u_ID = 0, u_Email = cur_Email req, u_Password = hashedPassword,
                           u_Name = cur_Name req, u_Role = role, u_IsActive = True,
                           u_CreatedAt = 0, u_UpdatedAt = 0\<rparr>
               in (case userRepo_Create e st user of
                     (user', st', Some err) \<Rightarrow> (st', Inl err)
                   | (user', st', None) \<Rightarrow> (st', Inr user'))))"

section \<open>Concrete data used by the examples\<close>

text \<open>
  An environment for the examples. The quantities and prices of the examples that use it are
  integers below 100, on which the \<open>float64\<close> product and conversion are exact.
\<close>

definition env0 :: env where
  "env0 = \<lparr>now = 1000, new_object_id = 77, uuid = (\<lambda>n. ''uuid-'' @ replicate n CHR ''i''),
           bcrypt = (\<lambda>pw. Some (''$2a$'' @ rev pw)),
           float64_mul = (\<lambda>x y. x * y), float64_of_int = (\<lambda>n. real_of_int (sint n))\<rparr>"

definition productA :: Product where
  "productA = \<lparr>p_ID = 42, p_Name = ''Tractor'', p_Description = ''A'', p_Price = 10,
               p_Category = ''Tractors'', p_Brand = ''B'', p_ImageURL = [], p_Images = [],
               p_Stock = 5, p_IsActive = True, p_CreatedAt = 10, p_UpdatedAt = 10\<rparr>"

definition storeA :: store where
  "storeA = \<lparr>products = [productA], sales = [], users = [], failing = {}\<rparr>"

definition req_q6 :: CreateSaleRequest where
  "req_q6 = \<lparr>csr_ProductID = 42, csr_Quantity = 6, csr_Price = 10\<rparr>"

definition req_q5 :: CreateSaleRequest where
  "req_q5 = \<lparr>csr_ProductID = 42, csr_Quantity = 5, csr_Price = 10\<rparr>"

definition req_q5_p12 :: CreateSaleRequest where
  "req_q5_p12 = \<lparr>csr_ProductID = 42, csr_Quantity = 5, csr_Price = 12\<rparr>"

text \<open>
  The \<open>float64\<close> product where it rounds. A \<open>float64\<close> has a significand of 53 bits, so its
  values in the interval from 4 to 8 are the multiples of \<open>2^-50\<close>, and the product of two
  values whose exact product lies there is the nearest such multiple, a tie going to the
  even one. \<open>env_ieee\<close> has that product.
\<close>

definition round_half_even :: "real \<Rightarrow> int" where
  "round_half_even x =
     (let f = \<lfloor>x\<rfloor>
      in if x - of_int f < 1 / 2 then f
         else if 1 / 2 < x - of_int f then f + 1
         else if even f then f else f + 1)"

definition float64_round_4_8 :: "real \<Rightarrow> float64" where
  "float64_round_4_8 x = of_int (round_half_even (x * 2 ^ 50)) / 2 ^ 50"

definition env_ieee :: env where
  "env_ieee = env0\<lparr>float64_mul := (\<lambda>x y. float64_round_4_8 (x * y))\<rparr>"

text \<open>
  Two neighbouring prices, \<open>0x1.8000000000005p+0\<close> in the request and \<open>0x1.8000000000006p+0\<close> in
  the catalog, and a request for 3 units.
\<close>

definition productR :: Product where
  "productR = productA\<lparr>p_ID := 46, p_Price := 6755399441055750 / 4503599627370496\<rparr>"

definition storeR :: store where
  "storeR = \<lparr>products = [productR], sales = [], users = [], failing = {}\<rparr>"

definition req_round :: CreateSaleRequest where
  "req_round = \<lparr>csr_ProductID = 46, csr_Quantity = 3,
                csr_Price = 6755399441055749 / 4503599627370496\<rparr>"

definition storeA_update_down :: store where
  "storeA_update_down = storeA\<lparr>failing := {ProductUpdateStock, ProductUpdateOne}\<rparr>"

text \<open>A JSON create request whose first image URL is blank.\<close>

definition req_blank_first :: CreateProductRequest where
  "req_blank_first =
     \<lparr>cpr_Name = ''Plow'', cpr_Description = ''P'', cpr_Price = 150, cpr_Category = ''Plows'',
      cpr_Brand = ''B'', cpr_ImageURL = [], cpr_ImageURLs = ['''', ''https://example.com/plow2.jpg''],
      cpr_Stock = 5\<rparr>"

text \<open>A product whose only image is an uploaded file, flagged primary.\<close>

definition uploaded_image :: ProductImage where
  "uploaded_image =
     \<lparr>img_ID = ''f1'', img_URL = ''http://localhost:8082/uploads/products/1_f1.png'',
      img_Filename = ''a.png'', img_FilePath = ''uploads/products/1_f1.png'', img_FileSize = 2048,
      img_MimeType = ''image/png'', img_IsURL = False, img_IsPrimary = True, img_CreatedAt = 11\<rparr>"

definition productB :: Product where
  "productB = productA\<lparr>p_ID := 43, p_Images := [uploaded_image]\<rparr>"

definition storeB :: store where
  "storeB = \<lparr>products = [productB], sales = [], users = [], failing = {}\<rparr>"

text \<open>An update that only sets the legacy image URL, and one that only renames the product.\<close>

definition req_legacy_url :: UpdateProductRequest where
  "req_legacy_url =
     \<lparr>upr_Name = [], upr_Description = [], upr_Price = 0, upr_Category = [], upr_Brand = [],
      upr_ImageURL = ''https://example.com/new.jpg'', upr_ImageURLs = [], upr_Stock = 5,
      upr_IsActive = None\<rparr>"

definition req_rename :: UpdateProductRequest where
  "req_rename =
     \<lparr>upr_Name = ''Tractor X'', upr_Description = [], upr_Price = 0, upr_Category = [],
      upr_Brand = [], upr_ImageURL = [], upr_ImageURLs = [], upr_Stock = 0, upr_IsActive = None\<rparr>"

text \<open>A product with one URL image, primary, and an update whose first image URL is blank.\<close>

definition productU :: Product where
  "productU = productA\<lparr>p_ID := 45, p_ImageURL := ''https://example.com/a.jpg'',
                        p_Images := [url_image env0 0 ''https://example.com/a.jpg'' True]\<rparr>"

definition storeU :: store where
  "storeU = \<lparr>products = [productU], sales = [], users = [], failing = {}\<rparr>"

definition req_urls_blank_first :: UpdateProductRequest where
  "req_urls_blank_first =
     \<lparr>upr_Name = [], upr_Description = [], upr_Price = 0, upr_Category = [], upr_Brand = [],
      upr_ImageURL = [], upr_ImageURLs = ['''', ''https://example.com/b.jpg''], upr_Stock = 5,
      upr_IsActive = None\<rparr>"

text \<open>A second product, a filter on the category with pagination off, an example matcher.\<close>

definition productC :: Product where
  "productC = productA\<lparr>p_ID := 44, p_Name := ''Plow'', p_Category := ''Plows'', p_CreatedAt := 20\<rparr>"

definition storeP :: store where
  "storeP = \<lparr>products = [productA, productC], sales = [], users = [], failing = {}\<rparr>"

definition flt_tractors :: ProductFilter where
  "flt_tractors =
     \<lparr>pf_Category = ''Tractors'', pf_Brand = [], pf_MinPrice = 0, pf_MaxPrice = 0,
      pf_IsActive = None, pf_Search = [], pf_Page = 0, pf_Limit = 0\<rparr>"

definition rx_literal :: regex_engine where
  "rx_literal = (\<lambda>pattern. Some (\<lambda>s. prefix pattern s))"

text \<open>Two sales, the later one of a product that is no longer in the catalog.\<close>

definition saleX :: Sale where
  "saleX = \<lparr>s_ID = 2, s_ProductID = 42, s_Quantity = 2, s_Price = 10, s_Total = 20,
            s_DateSold = 50, s_CreatedAt = 50, s_UpdatedAt = 50\<rparr>"

definition saleY :: Sale where
  "saleY = \<lparr>s_ID = 3, s_ProductID = 99, s_Quantity = 3, s_Price = 10, s_Total = 30,
            s_DateSold = 60, s_CreatedAt = 60, s_UpdatedAt = 60\<rparr>"

definition storeS :: store where
  "storeS = \<lparr>products = [productA], sales = [saleX, saleY], users = [], failing = {}\<rparr>"

text \<open>The formatters on the values of the example.\<close>

definition fmt0 :: formatter where
  "fmt0 = \<lparr>Hex = (\<lambda>i. if i = 2 then ''02'' else if i = 3 then ''03'' else if i = 42 then ''2a''
                       else if i = 99 then ''63'' else ''??''),
            fmt_d = (\<lambda>q. if q = 2 then ''2'' else if q = 3 then ''3'' else ''?''),
            fmt_2f = (\<lambda>x. if x = 10 then ''10.00'' else if x = 20 then ''20.00''
                          else if x = 30 then ''30.00'' else ''?''),
            fmt_time = (\<lambda>t. if t = 50 then ''1970-01-01 00:00:50''
                            else if t = 60 then ''1970-01-01 00:01:00'' else ''?'')\<rparr>"

text \<open>A disk with one uploaded image and one file of the application next to the upload tree.\<close>

definition fs0 :: filesystem where
  "fs0 = {(False, [''uploads'', ''products'', ''1_f1.png'']), (False, [''config'', ''app.env''])}"

definition req_admin :: CreateUserRequest where
  "req_admin = \<lparr>cur_Email = ''eve@example.com'', cur_Password = ''secret1'', cur_Name = ''Eve'',
                cur_Role = ''admin''\<rparr>"

section \<open>Facts about the storage model\<close>

lemma find_update_one:
  "(\<And>x. P x \<Longrightarrow> P (f x)) \<Longrightarrow> find P (update_one P f xs) = map_option f (find P xs)"
  by (induction xs) auto

text \<open>Subtracting a non-negative quantity that does not exceed the stock cannot overflow.\<close>

lemma sint_sub_in_range:
  fixes s q :: int64
  assumes "0 \<le> sint q" and "sint q \<le> sint s"
  shows "sint (s - q) = sint s - sint q"
proof -
  have b1: "sint s < 2 ^ 63" using sint_lt [of s] by simp
  have b2: "- (2 ^ 63) \<le> sint s" using sint_ge [of s] by simp
  have "sint (s - q) = signed_take_bit 63 (sint s - sint q)"
    by (simp add: sint_word_ariths)
  also have "\<dots> = sint s - sint q"
    using assms b1 b2 by (intro signed_take_bit_int_eq_self) auto
  finally show ?thesis .
qed

lemma GetByID_SomeD:
  assumes "productRepo_GetByID st i = Inr (Some p)"
  shows "ProductFindOne \<notin> failing st"
    and "find (\<lambda>x. p_ID x = i) (products st) = Some p"
    and "p_ID p = i"
proof -
  show "ProductFindOne \<notin> failing st" and b: "find (\<lambda>x. p_ID x = i) (products st) = Some p"
    using assms by (auto simp: productRepo_GetByID_def split: if_splits)
  from b show "p_ID p = i" by (auto simp: find_Some_iff)
qed

lemma stock_of_simps:
  "stock_of (st\<lparr>sales := ss\<rparr>) i = stock_of st i"
  "stock_of (st\<lparr>sales := ss, products := ps\<rparr>) i = map_option p_Stock (find (\<lambda>p. p_ID p = i) ps)"
  by (simp_all add: stock_of_def)

section \<open>The two CreateSale implementations, branch by branch\<close>

lemma SaleUseCase_CreateSale_found:
  assumes "productRepo_GetByID st (csr_ProductID req) = Inr (Some p)"
  shows "SaleUseCase_CreateSale e st req =
     (if p_Stock p <s csr_Quantity req then (st, Inl InsufficientStock)
      else if SaleInsertOne \<in> failing st then (st, Inl StorageFailure)
      else if ProductUpdateStock \<in> failing st
        then (st\<lparr>sales := sales st @ [recorded_sale e (csr_ProductID req) (csr_Quantity req) (csr_Price req)]\<rparr>,
              Inl StorageFailure)
      else (st\<lparr>sales := sales st @ [recorded_sale e (csr_ProductID req) (csr_Quantity req) (csr_Price req)],
               products := update_one (\<lambda>x. p_ID x = csr_ProductID req)
                  (\<lambda>x. x\<lparr>p_Stock := p_Stock p - csr_Quantity req, p_UpdatedAt := now e\<rparr>) (products st)\<rparr>,
            Inr (recorded_sale e (csr_ProductID req) (csr_Quantity req) (csr_Price req))))"
  using assms
  by (simp add: SaleUseCase_CreateSale_def saleRepo_Create_def productRepo_UpdateStock_def
      recorded_sale_def Let_def)

lemma SalesUseCase_CreateSale_found:
  assumes "productRepo_GetByID st (csr_ProductID req) = Inr (Some p)"
  shows "SalesUseCase_CreateSale e st req =
     (if p_Stock p <s csr_Quantity req then (st, Inl InsufficientStock)
      else if SaleInsertOne \<in> failing st then (st, Inl StorageFailure)
      else if ProductUpdateOne \<in> failing st
        then (st\<lparr>sales := sales st @ [recorded_sale e (csr_ProductID req) (csr_Quantity req) (p_Price p)]\<rparr>,
              Inl StorageFailure)
      else (st\<lparr>sales := sales st @ [recorded_sale e (csr_ProductID req) (csr_Quantity req) (p_Price p)],
               products := update_one (\<lambda>x. p_ID x = csr_ProductID req)
                  (\<lambda>_. p\<lparr>p_Stock := p_Stock p - csr_Quantity req, p_UpdatedAt := now e\<rparr>) (products st)\<rparr>,
            Inr (recorded_sale e (csr_ProductID req) (csr_Quantity req) (p_Price p))))"
  using assms GetByID_SomeD(3) [OF assms]
  by (simp add: SalesUseCase_CreateSale_def saleRepo_Create_def productRepo_Update_def
      recorded_sale_def Let_def)

lemma GetByID_storeA: "productRepo_GetByID storeA 42 = Inr (Some productA)"
  by (simp add: productRepo_GetByID_def storeA_def productA_def)

lemma GetByID_storeA_update_down: "productRepo_GetByID storeA_update_down 42 = Inr (Some productA)"
  by (simp add: productRepo_GetByID_def storeA_update_down_def storeA_def productA_def)

section \<open>C1: a sale that exceeds the stock is rejected\<close>

text \<open>
  Claim C1. Let \<open>p\<close> be the product the request names, as the lookup returns it. If the
  requested quantity exceeds \<open>p\<close>'s stock, \<open>SaleUseCase.CreateSale\<close> and
  \<open>SalesUseCase.CreateSale\<close> both fail with "insufficient stock" and return the store as it
  was, so the stock is unchanged. Consequently, for a validated request (quantity \<open>> 0\<close>) on a
  product whose stock is not negative, the stock is not negative after the call either, whatever
  the outcome of the call.
\<close>

theorem CreateSale_rejects_insufficient_stock:
  assumes "productRepo_GetByID st (csr_ProductID req) = Inr (Some p)"
  shows "(sint (p_Stock p) < sint (csr_Quantity req) \<longrightarrow>
            SaleUseCase_CreateSale e st req = (st, Inl InsufficientStock) \<and>
            SalesUseCase_CreateSale e st req = (st, Inl InsufficientStock)) \<and>
         (0 \<le> sint (p_Stock p) \<and> 0 < sint (csr_Quantity req) \<longrightarrow>
            (\<exists>n. stock_of (fst (SaleUseCase_CreateSale e st req)) (csr_ProductID req) = Some n
                 \<and> 0 \<le> sint n) \<and>
            (\<exists>n. stock_of (fst (SalesUseCase_CreateSale e st req)) (csr_ProductID req) = Some n
                 \<and> 0 \<le> sint n))"
proof -
  note f = GetByID_SomeD [OF assms]
  have s0: "stock_of st (csr_ProductID req) = Some (p_Stock p)"
    using f(2) by (simp add: stock_of_def)
  have sub: "0 \<le> sint (p_Stock p - csr_Quantity req)"
    if "0 < sint (csr_Quantity req)" "\<not> p_Stock p <s csr_Quantity req"
    using that sint_sub_in_range [of "csr_Quantity req" "p_Stock p"]
    by (simp add: word_sless_alt)
  show ?thesis
    using s0 sub f(2) f(3)
    by (auto simp: SaleUseCase_CreateSale_found [OF assms] SalesUseCase_CreateSale_found [OF assms]
        word_sless_alt stock_of_simps find_update_one)
qed

text \<open>The scenario of the specification: stock 5, quantity 6.\<close>

theorem CreateSale_rejects_insufficient_stock_witness:
  "SaleUseCase_CreateSale env0 storeA req_q6 = (storeA, Inl InsufficientStock) \<and>
   SalesUseCase_CreateSale env0 storeA req_q6 = (storeA, Inl InsufficientStock) \<and>
   stock_of (fst (SaleUseCase_CreateSale env0 storeA req_q6)) 42 = Some 5 \<and>
   stock_of (fst (SalesUseCase_CreateSale env0 storeA req_q6)) 42 = Some 5"
proof -
  have h: "productRepo_GetByID storeA (csr_ProductID req_q6) = Inr (Some productA)"
    by (simp add: req_q6_def GetByID_storeA)
  have s: "stock_of storeA 42 = Some 5"
    by (simp add: stock_of_def storeA_def productA_def)
  from CreateSale_rejects_insufficient_stock [OF h, of env0] s show ?thesis
    by (simp add: req_q6_def productA_def)
qed

section \<open>C2: the effects of a successful sale\<close>

text \<open>
  Claim C2 says that after a successful \<open>CreateSale(pid, q, p)\<close> the stock is \<open>s - q\<close> and the
  persisted total is \<open>q * p\<close> for the caller-supplied price \<open>p\<close>. That holds for
  \<open>SaleUseCase.CreateSale\<close>. \<open>SalesUseCase.CreateSale\<close> computes the total from the catalog price:
  with catalog price 10, request price 12 and quantity 5 the persisted total is 50, while the
  product of the request price and the quantity is 60.
\<close>

theorem CreateSale_success_effects_counterexample:
  "map_sum id s_Total (snd (SalesUseCase_CreateSale env0 storeA req_q5_p12)) = Inr 50 \<and>
   float64_mul env0 (csr_Price req_q5_p12) (float64_of_int env0 (csr_Quantity req_q5_p12)) = 60"
  by (simp add: SalesUseCase_CreateSale_def productRepo_GetByID_def saleRepo_Create_def
      productRepo_Update_def storeA_def productA_def req_q5_p12_def env0_def Let_def)

text \<open>
  Claim C2, amended. Let \<open>p\<close> be the product the request names, with stock \<open>s\<close>. After either
  \<open>CreateSale\<close> succeeds, the product's stock is \<open>s - q\<close> (no wrap-around when \<open>q \<ge> 0\<close>) and the
  returned sale is the one appended to the sales collection. Its total is the program's
  \<open>float64\<close> product \<open>price * float64(q)\<close> of the price the sale records and the quantity, for
  whatever that product and that conversion compute: the price is the caller-supplied request
  price in \<open>SaleUseCase.CreateSale\<close> and the catalog product's price in
  \<open>SalesUseCase.CreateSale\<close>.
\<close>

theorem CreateSale_success_effects:
  assumes "productRepo_GetByID st (csr_ProductID req) = Inr (Some p)"
  shows "(SaleUseCase_CreateSale e st req = (st', Inr sale) \<longrightarrow>
            stock_of st' (csr_ProductID req) = Some (p_Stock p - csr_Quantity req) \<and>
            sint (csr_Quantity req) \<le> sint (p_Stock p) \<and>
            (0 \<le> sint (csr_Quantity req) \<longrightarrow>
               sint (p_Stock p - csr_Quantity req) = sint (p_Stock p) - sint (csr_Quantity req)) \<and>
            sales st' = sales st @ [sale] \<and>
            s_Price sale = csr_Price req \<and>
            s_Total sale = float64_mul e (csr_Price req) (float64_of_int e (csr_Quantity req))) \<and>
         (SalesUseCase_CreateSale e st req = (st', Inr sale) \<longrightarrow>
            stock_of st' (csr_ProductID req) = Some (p_Stock p - csr_Quantity req) \<and>
            sint (csr_Quantity req) \<le> sint (p_Stock p) \<and>
            (0 \<le> sint (csr_Quantity req) \<longrightarrow>
               sint (p_Stock p - csr_Quantity req) = sint (p_Stock p) - sint (csr_Quantity req)) \<and>
            sales st' = sales st @ [sale] \<and>
            s_Price sale = p_Price p \<and>
            s_Total sale = float64_mul e (p_Price p) (float64_of_int e (csr_Quantity req)))"
proof -
  note f = GetByID_SomeD [OF assms]
  have sub: "sint (p_Stock p - csr_Quantity req) = sint (p_Stock p) - sint (csr_Quantity req)"
    if "0 \<le> sint (csr_Quantity req)" "\<not> p_Stock p <s csr_Quantity req"
    using that sint_sub_in_range [of "csr_Quantity req" "p_Stock p"]
    by (simp add: word_sless_alt)
  show ?thesis
    using f(2) f(3) sub
    by (auto simp: SaleUseCase_CreateSale_found [OF assms] SalesUseCase_CreateSale_found [OF assms]
        stock_of_simps find_update_one recorded_sale_def word_sless_alt split: if_splits)
qed

text \<open>
  The scenario of the specification: stock 5, quantity 5, price 10; the stock becomes 0 and
  the total is 50.
\<close>

theorem CreateSale_success_effects_witness:
  "stock_of (fst (SaleUseCase_CreateSale env0 storeA req_q5)) 42 = Some 0 \<and>
   map_sum id s_Total (snd (SaleUseCase_CreateSale env0 storeA req_q5)) = Inr 50 \<and>
   stock_of (fst (SalesUseCase_CreateSale env0 storeA req_q5_p12)) 42 = Some 0 \<and>
   map_sum id s_Total (snd (SalesUseCase_CreateSale env0 storeA req_q5_p12)) = Inr 50"
proof -
  have h: "productRepo_GetByID storeA (csr_ProductID req_q5) = Inr (Some productA)"
          "productRepo_GetByID storeA (csr_ProductID req_q5_p12) = Inr (Some productA)"
    by (simp_all add: req_q5_def req_q5_p12_def GetByID_storeA)
  have r1: "snd (SaleUseCase_CreateSale env0 storeA req_q5) = Inr (recorded_sale env0 42 5 10)"
    unfolding SaleUseCase_CreateSale_found [OF h(1)]
    by (simp add: storeA_def productA_def req_q5_def)
  have r2: "snd (SalesUseCase_CreateSale env0 storeA req_q5_p12) = Inr (recorded_sale env0 42 5 10)"
    unfolding SalesUseCase_CreateSale_found [OF h(2)]
    by (simp add: storeA_def productA_def req_q5_p12_def)
  have m: "float64_mul env0 10 (float64_of_int env0 5) = 50"
    by (simp add: env0_def)
  from CreateSale_success_effects [OF h(1), of env0
         "fst (SaleUseCase_CreateSale env0 storeA req_q5)" "recorded_sale env0 42 5 10"]
       CreateSale_success_effects [OF h(2), of env0
         "fst (SalesUseCase_CreateSale env0 storeA req_q5_p12)" "recorded_sale env0 42 5 10"]
       r1 r2 m
  show ?thesis
    by (simp add: prod_eq_iff req_q5_def req_q5_p12_def productA_def)
qed

section \<open>C3: which price a sale records\<close>

text \<open>
  Claim C3 says that whenever the request price and the catalog price differ, the two
  implementations persist different sale records and different totals. The records do differ,
  but the totals need not, because the \<open>float64\<close> product rounds. For a validated request with
  quantity 3 and price \<open>0x1.8000000000005p+0\<close> on a product whose catalog price is
  \<open>0x1.8000000000006p+0\<close>, the exact products are 3.75 and 4.5 units in the last place above
  4.5; the first rounds up and the second, a tie, rounds to the even neighbour, so both
  implementations store the total \<open>0x1.2000000000004p+2\<close>.
\<close>

theorem CreateSale_price_sources_counterexample:
  "csr_Price req_round \<noteq> p_Price productR \<and>
   0 < csr_Price req_round \<and> 0 <s csr_Quantity req_round \<and>
   map_sum id s_Total (snd (SaleUseCase_CreateSale env_ieee storeR req_round))
     = Inr (1266637395197953 / 281474976710656) \<and>
   map_sum id s_Total (snd (SalesUseCase_CreateSale env_ieee storeR req_round))
     = Inr (1266637395197953 / 281474976710656)"
  by (simp add: SaleUseCase_CreateSale_def SalesUseCase_CreateSale_def productRepo_GetByID_def
      saleRepo_Create_def productRepo_Update_def productRepo_UpdateStock_def storeR_def
      productR_def productA_def req_round_def env_ieee_def env0_def float64_round_4_8_def
      round_half_even_def word_sless_alt Let_def)

text \<open>
  Claim C3, amended. For the same request and store, when both implementations succeed,
  \<open>SaleUseCase.CreateSale\<close> persists a sale whose price is the request price and
  \<open>SalesUseCase.CreateSale\<close> one whose price is the catalog product's price, so the two sale
  records differ whenever the two prices do. Each total is the \<open>float64\<close> product of the
  recorded price and the quantity; nothing is said about the two totals being different.
\<close>

theorem CreateSale_price_sources:
  assumes "productRepo_GetByID st (csr_ProductID req) = Inr (Some p)"
      and "SaleUseCase_CreateSale e st req = (st1, Inr sale1)"
      and "SalesUseCase_CreateSale e st req = (st2, Inr sale2)"
  shows "sales st1 = sales st @ [sale1] \<and> sales st2 = sales st @ [sale2] \<and>
         s_Price sale1 = csr_Price req \<and> s_Price sale2 = p_Price p \<and>
         s_Total sale1 = float64_mul e (csr_Price req) (float64_of_int e (csr_Quantity req)) \<and>
         s_Total sale2 = float64_mul e (p_Price p) (float64_of_int e (csr_Quantity req)) \<and>
         (csr_Price req \<noteq> p_Price p \<longrightarrow> sale1 \<noteq> sale2)"
proof -
  have s1: "sale1 = recorded_sale e (csr_ProductID req) (csr_Quantity req) (csr_Price req)"
   and t1: "sales st1 = sales st @ [sale1]"
    using assms(2) unfolding SaleUseCase_CreateSale_found [OF assms(1)]
    by (auto split: if_splits)
  have s2: "sale2 = recorded_sale e (csr_ProductID req) (csr_Quantity req) (p_Price p)"
   and t2: "sales st2 = sales st @ [sale2]"
    using assms(3) unfolding SalesUseCase_CreateSale_found [OF assms(1)]
    by (auto split: if_splits)
  show ?thesis
    using t1 t2 by (auto simp: s1 s2 recorded_sale_def)
qed

theorem CreateSale_price_sources_witness:
  "map_sum id s_Price (snd (SaleUseCase_CreateSale env0 storeA req_q5_p12)) = Inr 12 \<and>
   map_sum id s_Price (snd (SalesUseCase_CreateSale env0 storeA req_q5_p12)) = Inr 10 \<and>
   map_sum id s_Total (snd (SaleUseCase_CreateSale env0 storeA req_q5_p12)) = Inr 60 \<and>
   map_sum id s_Total (snd (SalesUseCase_CreateSale env0 storeA req_q5_p12)) = Inr 50 \<and>
   snd (SaleUseCase_CreateSale env0 storeA req_q5_p12) \<noteq>
     snd (SalesUseCase_CreateSale env0 storeA req_q5_p12)"
proof -
  have h: "productRepo_GetByID storeA (csr_ProductID req_q5_p12) = Inr (Some productA)"
    by (simp add: req_q5_p12_def GetByID_storeA)
  have r1: "snd (SaleUseCase_CreateSale env0 storeA req_q5_p12) = Inr (recorded_sale env0 42 5 12)"
    unfolding SaleUseCase_CreateSale_found [OF h]
    by (simp add: storeA_def productA_def req_q5_p12_def)
  have r2: "snd (SalesUseCase_CreateSale env0 storeA req_q5_p12) = Inr (recorded_sale env0 42 5 10)"
    unfolding SalesUseCase_CreateSale_found [OF h]
    by (simp add: storeA_def productA_def req_q5_p12_def)
  have e1: "SaleUseCase_CreateSale env0 storeA req_q5_p12 =
              (fst (SaleUseCase_CreateSale env0 storeA req_q5_p12), Inr (recorded_sale env0 42 5 12))"
    using r1 by (simp add: prod_eq_iff)
  have e2: "SalesUseCase_CreateSale env0 storeA req_q5_p12 =
              (fst (SalesUseCase_CreateSale env0 storeA req_q5_p12), Inr (recorded_sale env0 42 5 10))"
    using r2 by (simp add: prod_eq_iff)
  have m: "float64_mul env0 12 (float64_of_int env0 5) = 60"
          "float64_mul env0 10 (float64_of_int env0 5) = 50"
    by (simp_all add: env0_def)
  from CreateSale_price_sources [OF h e1 e2] r1 r2 m show ?thesis
    by (simp add: req_q5_p12_def productA_def)
qed

section \<open>C4: the two writes of CreateSale are not atomic\<close>

text \<open>
  Claim C4. When the product is found with enough stock, the insert of the sale record succeeds
  and the following stock update returns an error, \<open>CreateSale\<close> returns that error, the sale
  record stays in the sales collection and the product's stock is what it was. This holds for
  \<open>SaleUseCase.CreateSale\<close> (stock written by \<open>UpdateStock\<close>) and for \<open>SalesUseCase.CreateSale\<close>
  (stock written by \<open>Update\<close>).
\<close>

theorem CreateSale_not_atomic:
  assumes "productRepo_GetByID st (csr_ProductID req) = Inr (Some p)"
      and "\<not> p_Stock p <s csr_Quantity req"
      and "SaleInsertOne \<notin> failing st"
  shows "(ProductUpdateStock \<in> failing st \<longrightarrow>
            SaleUseCase_CreateSale e st req =
              (st\<lparr>sales := sales st @
                    [recorded_sale e (csr_ProductID req) (csr_Quantity req) (csr_Price req)]\<rparr>,
               Inl StorageFailure) \<and>
            stock_of (fst (SaleUseCase_CreateSale e st req)) (csr_ProductID req) = Some (p_Stock p)) \<and>
         (ProductUpdateOne \<in> failing st \<longrightarrow>
            SalesUseCase_CreateSale e st req =
              (st\<lparr>sales := sales st @
                    [recorded_sale e (csr_ProductID req) (csr_Quantity req) (p_Price p)]\<rparr>,
               Inl StorageFailure) \<and>
            stock_of (fst (SalesUseCase_CreateSale e st req)) (csr_ProductID req) = Some (p_Stock p))"
  using assms GetByID_SomeD(2) [OF assms(1)]
  by (auto simp: SaleUseCase_CreateSale_found [OF assms(1)]
      SalesUseCase_CreateSale_found [OF assms(1)] stock_of_def)

theorem CreateSale_not_atomic_witness:
  "snd (SaleUseCase_CreateSale env0 storeA_update_down req_q5) = Inl StorageFailure \<and>
   sales (fst (SaleUseCase_CreateSale env0 storeA_update_down req_q5)) = [recorded_sale env0 42 5 10] \<and>
   stock_of (fst (SaleUseCase_CreateSale env0 storeA_update_down req_q5)) 42 = Some 5 \<and>
   snd (SalesUseCase_CreateSale env0 storeA_update_down req_q5) = Inl StorageFailure \<and>
   sales (fst (SalesUseCase_CreateSale env0 storeA_update_down req_q5)) = [recorded_sale env0 42 5 10] \<and>
   stock_of (fst (SalesUseCase_CreateSale env0 storeA_update_down req_q5)) 42 = Some 5"
proof -
  have h: "productRepo_GetByID storeA_update_down (csr_ProductID req_q5) = Inr (Some productA)"
    by (simp add: req_q5_def GetByID_storeA_update_down)
  have s: "\<not> p_Stock productA <s csr_Quantity req_q5"
    by (simp add: productA_def req_q5_def)
  have i: "SaleInsertOne \<notin> failing storeA_update_down"
    by (simp add: storeA_update_down_def)
  have u: "ProductUpdateStock \<in> failing storeA_update_down"
          "ProductUpdateOne \<in> failing storeA_update_down"
    by (simp_all add: storeA_update_down_def)
  have l: "sales storeA_update_down = []"
    by (simp add: storeA_update_down_def storeA_def)
  have k: "stock_of storeA_update_down 42 = Some 5"
    by (simp add: stock_of_def storeA_update_down_def storeA_def productA_def)
  from CreateSale_not_atomic [OF h s i, of env0] u l k show ?thesis
    by (simp add: req_q5_def productA_def stock_of_simps)
qed

section \<open>C5: one primary image\<close>

text \<open>
  Claim C5 asks that every create and update path leaves exactly one primary image in a
  non-empty image collection. \<open>CreateProduct\<close> and \<open>UpdateProduct\<close> mark a URL image primary
  when its index in the request is 0 ("First image is primary"), but skip blank URLs: for the
  JSON request with \<open>image_urls = ["", "https://example.com/plow2.jpg"]\<close> the created product
  has one image and no primary image, and the same kind of list in an update of a product whose
  only image is a URL image leaves one image and no primary image. \<open>CreateProductWithImages\<close>
  and \<open>UpdateProductWithImages\<close> end with the fallback that marks the first image primary;
  \<open>CreateProduct\<close> and \<open>UpdateProduct\<close> have no such step.
\<close>

theorem primary_image_missing:
  "map_sum id (map img_IsPrimary \<circ> p_Images) (snd (CreateProduct env0 storeA req_blank_first))
     = Inr [False] \<and>
   map_sum id (primary_count \<circ> p_Images) (snd (CreateProduct env0 storeA req_blank_first))
     = Inr 0 \<and>
   map_sum id (map img_IsPrimary \<circ> p_Images)
     (snd (UpdateProduct env0 storeU 45 req_urls_blank_first)) = Inr [False]"
  by (simp add: CreateProduct_def UpdateProduct_def productRepo_Create_def productRepo_GetByID_def
      productRepo_Update_def new_product_def req_blank_first_def req_urls_blank_first_def
      storeA_def storeU_def productU_def productA_def url_image_def primary_count_def Let_def
      word_sle_eq)

text \<open>
  \<open>UpdateProduct\<close> with only a new legacy \<open>image_url\<close>, on a product whose single image is an
  uploaded primary one, puts a second primary image in front of it.
\<close>

lemma UpdateProduct_two_primary_images:
  "map_sum id (map img_IsPrimary \<circ> p_Images) (snd (UpdateProduct env0 storeB 43 req_legacy_url))
     = Inr [True, True]"
  by (simp add: UpdateProduct_def UpdateProduct_legacy_def productRepo_GetByID_def
      productRepo_Update_def storeB_def productB_def productA_def uploaded_image_def
      req_legacy_url_def url_image_def Let_def word_sle_eq)

text \<open>
  What the two paths with the fallback do guarantee: when at most one uploaded image is
  flagged primary (the handlers flag the first uploaded file only), a non-empty resulting
  collection has exactly one primary image.
\<close>

lemma hasPrimary_iff: "hasPrimary images \<longleftrightarrow> 0 < primary_count images"
  by (induction images) (auto simp: primary_count_def)

lemma primary_count_simps:
  "primary_count [] = 0"
  "primary_count (img # images) = (if img_IsPrimary img then 1 else 0) + primary_count images"
  "primary_count (images @ others) = primary_count images + primary_count others"
  by (simp_all add: primary_count_def)

lemma primary_count_ensure_primary:
  assumes "images \<noteq> []"
  shows "primary_count (ensure_primary images) = max 1 (primary_count images)"
proof (cases "hasPrimary images")
  case True
  then show ?thesis using assms by (simp add: ensure_primary_def hasPrimary_iff max_def)
next
  case False
  then have z: "primary_count images = 0" by (simp add: hasPrimary_iff)
  obtain img rest where i: "images = img # rest" using assms by (cases images) auto
  have "primary_count (images[0 := (images ! 0)\<lparr>img_IsPrimary := True\<rparr>]) = 1"
    using z by (simp add: i primary_count_simps split: if_splits)
  then show ?thesis using False assms z by (simp add: ensure_primary_def)
qed

lemma ensure_primary_Nil_iff: "ensure_primary images = [] \<longleftrightarrow> images = []"
  by (simp add: ensure_primary_def)

lemma IsPrimary_url_image: "img_IsPrimary (url_image e n u b) = b"
  by (simp add: url_image_def)

lemma primary_count_WithImages_urls:
  "primary_count (WithImages_urls e urls images) =
     primary_count images + (if images = [] \<and> (\<exists>u \<in> set urls. u \<noteq> []) then 1 else 0)"
proof (induction urls arbitrary: images)
  case Nil
  show ?case by simp
next
  case (Cons url urls)
  show ?case
  proof (cases "url = []")
    case True
    then show ?thesis by (simp add: Cons.IH)
  next
    case False
    then show ?thesis
      by (cases "images = []") (simp_all add: Cons.IH primary_count_simps IsPrimary_url_image)
  qed
qed

lemma WithImages_urls_at_most_one:
  assumes "primary_count images \<le> 1"
  shows "primary_count (WithImages_urls e urls images) \<le> 1"
proof (cases "images = []")
  case True
  then show ?thesis by (simp add: primary_count_WithImages_urls primary_count_simps)
next
  case False
  then show ?thesis using assms by (simp add: primary_count_WithImages_urls)
qed

lemma legacy_image_at_most_one:
  assumes "primary_count images \<le> 1"
  shows "primary_count (if c \<and> length images = 0 then images @ [url_image e n u True] else images)
           \<le> 1"
proof (cases "c \<and> length images = 0")
  case True
  then have "images = []" by simp
  then show ?thesis unfolding if_P [OF True]
    by (simp add: primary_count_simps IsPrimary_url_image)
next
  case False
  show ?thesis unfolding if_not_P [OF False] by (rule assms)
qed

lemma ensure_primary_exactly_one:
  assumes "primary_count images \<le> 1" and "ensure_primary images \<noteq> []"
  shows "primary_count (ensure_primary images) = 1"
proof -
  have "images \<noteq> []" using assms(2) by (simp add: ensure_primary_Nil_iff)
  then show ?thesis using assms(1) by (simp add: primary_count_ensure_primary)
qed

lemma CreateProductWithImages_one_primary:
  assumes "primary_count uploadedImages \<le> 1"
      and "CreateProductWithImages e st req uploadedImages = (st', Inr product)"
      and "p_Images product \<noteq> []"
  shows "primary_count (p_Images product) = 1"
proof -
  define images1 where "images1 =
    (if length (cpr_ImageURLs req) > 0 then WithImages_urls e (cpr_ImageURLs req) uploadedImages
     else uploadedImages)"
  define images2 where "images2 =
    (if cpr_ImageURL req \<noteq> [] \<and> length images1 = 0
     then images1 @ [url_image e (length images1) (cpr_ImageURL req) True] else images1)"
  have c1: "primary_count images1 \<le> 1"
  proof (cases "length (cpr_ImageURLs req) > 0")
    case True
    show ?thesis unfolding images1_def if_P [OF True]
      by (rule WithImages_urls_at_most_one [OF assms(1)])
  next
    case False
    show ?thesis unfolding images1_def if_not_P [OF False] by (rule assms(1))
  qed
  have c2: "primary_count images2 \<le> 1"
    unfolding images2_def by (rule legacy_image_at_most_one [OF c1])
  have r: "p_Images product = ensure_primary images2"
  proof (cases "ProductInsertOne \<in> failing st")
    case True
    with assms(2) show ?thesis
      by (simp add: CreateProductWithImages_def productRepo_Create_def Let_def)
  next
    case False
    have n: "p_Images (new_product req) = []" by (simp add: new_product_def)
    from False assms(2) have "product =
        (new_product req)\<lparr>p_Images := ensure_primary images2, p_ID := new_object_id e,
                           p_CreatedAt := now e, p_UpdatedAt := now e\<rparr>"
      unfolding images2_def images1_def
      by (simp add: CreateProductWithImages_def productRepo_Create_def Let_def n cong: if_cong)
    then show ?thesis by simp
  qed
  from ensure_primary_exactly_one [OF c2] assms(3) show ?thesis
    by (simp add: r)
qed

lemma UpdateProductWithImages_one_primary:
  assumes "primary_count uploadedImages \<le> 1"
      and "UpdateProductWithImages e st i req uploadedImages = (st', Inr product)"
      and "p_Images product \<noteq> []"
  shows "primary_count (p_Images product) = 1"
proof -
  define images1 where "images1 =
    (if length (upr_ImageURLs req) > 0 then WithImages_urls e (upr_ImageURLs req) uploadedImages
     else uploadedImages)"
  define images2 where "images2 =
    (if upr_ImageURL req \<noteq> [] \<and> length images1 = 0
     then images1 @ [url_image e (length images1) (upr_ImageURL req) True] else images1)"
  have c1: "primary_count images1 \<le> 1"
  proof (cases "length (upr_ImageURLs req) > 0")
    case True
    show ?thesis unfolding images1_def if_P [OF True]
      by (rule WithImages_urls_at_most_one [OF assms(1)])
  next
    case False
    show ?thesis unfolding images1_def if_not_P [OF False] by (rule assms(1))
  qed
  have c2: "primary_count images2 \<le> 1"
    unfolding images2_def by (rule legacy_image_at_most_one [OF c1])
  have r: "p_Images product = ensure_primary images2"
  proof (cases "productRepo_GetByID st i")
    case (Inl err)
    with assms(2) show ?thesis by (simp add: UpdateProductWithImages_def)
  next
    case (Inr found)
    show ?thesis
    proof (cases found)
      case None
      with Inr assms(2) show ?thesis by (simp add: UpdateProductWithImages_def)
    next
      case (Some p)
      show ?thesis
      proof (cases "ProductUpdateOne \<in> failing st")
        case True
        with Inr Some assms(2) show ?thesis
          by (simp add: UpdateProductWithImages_def productRepo_Update_def Let_def)
      next
        case False
        with Inr Some assms(2) show ?thesis
          unfolding images2_def images1_def
          by (auto simp: UpdateProductWithImages_def productRepo_Update_def Let_def cong: if_cong)
      qed
    qed
  qed
  from ensure_primary_exactly_one [OF c2] assms(3) show ?thesis
    by (simp add: r)
qed

section \<open>C6: partial update\<close>

text \<open>
  Claim C6 says that a zero stock in the request of \<open>UpdateProduct\<close> leaves the stored stock
  unchanged, as an empty string and a zero price do. The guard is \<open>req.Stock >= 0\<close> where the
  price has \<open>req.Price > 0\<close>, so a request that only renames the product (its stock field is
  the zero value) sets the stock of a product that had 5 units to 0.
\<close>

theorem UpdateProduct_zero_stock_overwrites:
  "stock_of storeA 42 = Some 5 \<and>
   upr_Stock req_rename = 0 \<and>
   map_sum id p_Stock (snd (UpdateProduct env0 storeA 42 req_rename)) = Inr 0 \<and>
   stock_of (fst (UpdateProduct env0 storeA 42 req_rename)) 42 = Some 0"
  by (simp add: UpdateProduct_def productRepo_GetByID_def productRepo_Update_def stock_of_def
      storeA_def productA_def req_rename_def Let_def word_sle_eq)

text \<open>
  What \<open>UpdateProduct\<close> does to the fields when the request carries no image URL: the strings
  and the price follow the zero-value rule, the stock is overwritten by every request stock
  that is not negative, and \<open>UpdatedAt\<close> is set by the repository.
\<close>

lemma UpdateProduct_fields:
  assumes "productRepo_GetByID st i = Inr (Some p)"
      and "ProductUpdateOne \<notin> failing st"
      and "upr_ImageURL req = []" and "upr_ImageURLs req = []"
  shows "snd (UpdateProduct e st i req) =
     Inr (p\<lparr>p_Name := (if upr_Name req \<noteq> [] then upr_Name req else p_Name p),
            p_Description := (if upr_Description req \<noteq> [] then upr_Description req
                              else p_Description p),
            p_Price := (if upr_Price req > 0 then upr_Price req else p_Price p),
            p_Category := (if upr_Category req \<noteq> [] then upr_Category req else p_Category p),
            p_Brand := (if upr_Brand req \<noteq> [] then upr_Brand req else p_Brand p),
            p_Stock := (if 0 \<le>s upr_Stock req then upr_Stock req else p_Stock p),
            p_IsActive := (case upr_IsActive req of None \<Rightarrow> p_IsActive p | Some b \<Rightarrow> b),
            p_UpdatedAt := now e\<rparr>)"
  using assms
  by (simp add: UpdateProduct_def productRepo_Update_def Let_def split: option.splits)

section \<open>C7: Count and List use the same filter\<close>

lemma Count_filter_eq_List_filter: "Count_mongoFilter flt = List_mongoFilter flt"
  by (simp add: Count_mongoFilter_def List_mongoFilter_def)

text \<open>
  Claim C7. For every \<open>ProductFilter\<close> the query document \<open>Count\<close> builds is the one \<open>List\<close>
  builds. When pagination is off (\<open>Page\<close> or \<open>Limit\<close> not positive), whenever both calls
  return, the count is the number of products listed; and both do return, with that relation,
  when neither driver call fails and the search pattern compiles.
\<close>

theorem Count_agrees_with_List:
  "Count_mongoFilter flt = List_mongoFilter flt \<and>
   (\<not> (0 <s pf_Page flt \<and> 0 <s pf_Limit flt) \<longrightarrow>
      (\<forall>ps n. productRepo_List rx st flt = Inr ps \<and> productRepo_Count rx st flt = Inr n
                \<longrightarrow> n = int (length ps)) \<and>
      (ProductFind \<notin> failing st \<and> ProductCountDocuments \<notin> failing st \<and>
       query_ok rx (List_mongoFilter flt) \<longrightarrow>
         (\<exists>ps. productRepo_List rx st flt = Inr ps \<and>
               productRepo_Count rx st flt = Inr (int (length ps)))))"
  by (auto simp: Count_filter_eq_List_filter productRepo_List_def productRepo_Count_def Let_def
      split: if_splits)

theorem Count_agrees_with_List_witness:
  "productRepo_List rx_literal storeP flt_tractors = Inr [productA] \<and>
   productRepo_Count rx_literal storeP flt_tractors = Inr 1"
proof -
  have l: "productRepo_List rx_literal storeP flt_tractors = Inr [productA]"
    by (simp add: productRepo_List_def List_mongoFilter_def bson_M_empty_def query_ok_def
        matches_def storeP_def flt_tractors_def productA_def productC_def Let_def word_sless_alt)
  have p: "\<not> (0 <s pf_Page flt_tractors \<and> 0 <s pf_Limit flt_tractors)"
    by (simp add: flt_tractors_def word_sless_alt)
  have f: "ProductFind \<notin> failing storeP" "ProductCountDocuments \<notin> failing storeP"
    by (simp_all add: storeP_def)
  have q: "query_ok rx_literal (List_mongoFilter flt_tractors)"
    by (simp add: query_ok_def List_mongoFilter_def bson_M_empty_def flt_tractors_def Let_def)
  from Count_agrees_with_List [of flt_tractors rx_literal storeP] p f q l show ?thesis
    by simp
qed

section \<open>C8: CSV export\<close>

lemma ExportSales_rows_concat:
  "ExportSales_rows fm st xs b = b @ concat (map (csv_row fm st) xs)"
  by (induction xs arbitrary: b) simp_all

text \<open>
  Claim C8. \<open>ExportSales\<close> fails with "unsupported format" for every format other than
  \<open>csv\<close>. For \<open>csv\<close>, when the range query returns, the text is the header line
  \<open>ID,Product ID,Product Name,Quantity,Price,Total,Date Sold\<close> followed by the rows of the sales
  whose date lies in the inclusive range, one row each and nothing else, newest sale first;
  with no sale in the range it is the header line alone. A row is the seven fields of the sale
  separated by commas and ended by a line feed; its product name is the name of the product
  the lookup finds and \<open>Unknown\<close> when the product is not in the catalog (or the lookup
  fails). The fields are written as they are: a product name that contains a comma or a line
  feed is not quoted.
\<close>

theorem ExportSales_csv:
  "(format \<noteq> ''csv'' \<longrightarrow> ExportSales fm st fromDate toDate format = Inl UnsupportedFormat) \<and>
   (SaleFind \<notin> failing st \<longrightarrow>
      (\<exists>sold rows.
          sold = rev (sort_key s_DateSold
                   (filter (\<lambda>sale. fromDate \<le> s_DateSold sale \<and> s_DateSold sale \<le> toDate)
                      (sales st))) \<and>
          set sold = {sale \<in> set (sales st). fromDate \<le> s_DateSold sale \<and> s_DateSold sale \<le> toDate} \<and>
          rows = map (\<lambda>sale.
                   Hex fm (s_ID sale) @ '','' @ Hex fm (s_ProductID sale) @ '','' @
                   (if ProductFindOne \<in> failing st then ''Unknown''
                    else case find (\<lambda>p. p_ID p = s_ProductID sale) (products st) of
                           None \<Rightarrow> ''Unknown'' | Some product \<Rightarrow> p_Name product) @ '','' @
                   fmt_d fm (s_Quantity sale) @ '','' @ fmt_2f fm (s_Price sale) @ '','' @
                   fmt_2f fm (s_Total sale) @ '','' @ fmt_time fm (s_DateSold sale) @ [CHR 0x0A])
                 sold \<and>
          length rows =
            length (filter (\<lambda>sale. fromDate \<le> s_DateSold sale \<and> s_DateSold sale \<le> toDate)
                      (sales st)) \<and>
          ExportSales fm st fromDate toDate ''csv'' =
            Inr (''ID,Product ID,Product Name,Quantity,Price,Total,Date Sold'' @ [CHR 0x0A] @
                 concat rows)) \<and>
      (filter (\<lambda>sale. fromDate \<le> s_DateSold sale \<and> s_DateSold sale \<le> toDate) (sales st) = []
         \<longrightarrow> ExportSales fm st fromDate toDate ''csv'' =
               Inr (''ID,Product ID,Product Name,Quantity,Price,Total,Date Sold'' @ [CHR 0x0A])))"
proof -
  have row: "csv_row fm st = (\<lambda>sale.
                   Hex fm (s_ID sale) @ '','' @ Hex fm (s_ProductID sale) @ '','' @
                   (if ProductFindOne \<in> failing st then ''Unknown''
                    else case find (\<lambda>p. p_ID p = s_ProductID sale) (products st) of
                           None \<Rightarrow> ''Unknown'' | Some product \<Rightarrow> p_Name product) @ '','' @
                   fmt_d fm (s_Quantity sale) @ '','' @ fmt_2f fm (s_Price sale) @ '','' @
                   fmt_2f fm (s_Total sale) @ '','' @ fmt_time fm (s_DateSold sale) @ [CHR 0x0A])"
    by (rule ext)
       (simp add: csv_row_def productName_def productRepo_GetByID_def newline_def
          split: option.splits)
  have rng: "in_range fromDate toDate =
               (\<lambda>sale. fromDate \<le> s_DateSold sale \<and> s_DateSold sale \<le> toDate)"
    by (rule ext) (simp add: in_range_def)
  have a: "format \<noteq> ''csv'' \<longrightarrow> ExportSales fm st fromDate toDate format = Inl UnsupportedFormat"
    by (simp add: ExportSales_def)
  have b: "ExportSales fm st fromDate toDate ''csv'' =
             Inr (csv_header @ concat (map (csv_row fm st)
               (rev (sort_key s_DateSold (filter (in_range fromDate toDate) (sales st))))))"
    if "SaleFind \<notin> failing st"
    using that
    by (simp add: ExportSales_def saleRepo_GetSalesByDateRange_def ExportSales_rows_concat)
  show ?thesis
    using a b by (auto simp: row rng csv_header_def newline_def)
qed

theorem ExportSales_csv_witness:
  "ExportSales fmt0 storeS 0 100 ''json'' = Inl UnsupportedFormat \<and>
   ExportSales fmt0 storeS 0 100 ''csv'' =
     Inr (''ID,Product ID,Product Name,Quantity,Price,Total,Date Sold'' @ [CHR 0x0A] @
          ''03,63,Unknown,3,10.00,30.00,1970-01-01 00:01:00'' @ [CHR 0x0A] @
          ''02,2a,Tractor,2,10.00,20.00,1970-01-01 00:00:50'' @ [CHR 0x0A]) \<and>
   ExportSales fmt0 storeS 200 300 ''csv'' =
     Inr (''ID,Product ID,Product Name,Quantity,Price,Total,Date Sold'' @ [CHR 0x0A])"
proof -
  have f: "SaleFind \<notin> failing storeS"
    by (simp add: storeS_def)
  have s: "rev (sort_key s_DateSold
             (filter (\<lambda>sale. 0 \<le> s_DateSold sale \<and> s_DateSold sale \<le> 100) (sales storeS)))
           = [saleY, saleX]"
    by (simp add: storeS_def saleX_def saleY_def)
  have e: "filter (\<lambda>sale. 200 \<le> s_DateSold sale \<and> s_DateSold sale \<le> 300) (sales storeS) = []"
    by (simp add: storeS_def saleX_def saleY_def)
  have p: "ProductFindOne \<notin> failing storeS"
          "find (\<lambda>p. p_ID p = s_ProductID saleY) (products storeS) = None"
          "find (\<lambda>p. p_ID p = s_ProductID saleX) (products storeS) = Some productA"
    by (simp_all add: storeS_def saleX_def saleY_def productA_def)
  have y: "Hex fmt0 (s_ID saleY) @ '','' @ Hex fmt0 (s_ProductID saleY) @ '','' @ ''Unknown'' @ '','' @
           fmt_d fmt0 (s_Quantity saleY) @ '','' @ fmt_2f fmt0 (s_Price saleY) @ '','' @
           fmt_2f fmt0 (s_Total saleY) @ '','' @ fmt_time fmt0 (s_DateSold saleY) @ [CHR 0x0A] =
           ''03,63,Unknown,3,10.00,30.00,1970-01-01 00:01:00'' @ [CHR 0x0A]"
    by (simp add: fmt0_def saleY_def)
  have x: "Hex fmt0 (s_ID saleX) @ '','' @ Hex fmt0 (s_ProductID saleX) @ '','' @
           p_Name productA @ '','' @
           fmt_d fmt0 (s_Quantity saleX) @ '','' @ fmt_2f fmt0 (s_Price saleX) @ '','' @
           fmt_2f fmt0 (s_Total saleX) @ '','' @ fmt_time fmt0 (s_DateSold saleX) @ [CHR 0x0A] =
           ''02,2a,Tractor,2,10.00,20.00,1970-01-01 00:00:50'' @ [CHR 0x0A]"
    by (simp add: fmt0_def saleX_def productA_def)
  from ExportSales_csv [of "''json''" fmt0 storeS 0 100]
  have a: "ExportSales fmt0 storeS 0 100 ''json'' = Inl UnsupportedFormat"
    by simp
  from ExportSales_csv [of "''csv''" fmt0 storeS 0 100] f
  have "ExportSales fmt0 storeS 0 100 ''csv'' =
          Inr (''ID,Product ID,Product Name,Quantity,Price,Total,Date Sold'' @ [CHR 0x0A] @
               concat (map (\<lambda>sale.
                   Hex fmt0 (s_ID sale) @ '','' @ Hex fmt0 (s_ProductID sale) @ '','' @
                   (if ProductFindOne \<in> failing storeS then ''Unknown''
                    else case find (\<lambda>p. p_ID p = s_ProductID sale) (products storeS) of
                           None \<Rightarrow> ''Unknown'' | Some product \<Rightarrow> p_Name product) @ '','' @
                   fmt_d fmt0 (s_Quantity sale) @ '','' @ fmt_2f fmt0 (s_Price sale) @ '','' @
                   fmt_2f fmt0 (s_Total sale) @ '','' @ fmt_time fmt0 (s_DateSold sale) @ [CHR 0x0A])
                 (rev (sort_key s_DateSold
                   (filter (\<lambda>sale. 0 \<le> s_DateSold sale \<and> s_DateSold sale \<le> 100)
                      (sales storeS))))))"
    by auto
  then have b: "ExportSales fmt0 storeS 0 100 ''csv'' =
     Inr (''ID,Product ID,Product Name,Quantity,Price,Total,Date Sold'' @ [CHR 0x0A] @
          ''03,63,Unknown,3,10.00,30.00,1970-01-01 00:01:00'' @ [CHR 0x0A] @
          ''02,2a,Tractor,2,10.00,20.00,1970-01-01 00:00:50'' @ [CHR 0x0A])"
    unfolding s using p x y by simp
  from ExportSales_csv [of "''csv''" fmt0 storeS 200 300] f e
  have d: "ExportSales fmt0 storeS 200 300 ''csv'' =
             Inr (''ID,Product ID,Product Name,Quantity,Price,Total,Date Sold'' @ [CHR 0x0A])"
    by simp
  from a b d show ?thesis by simp
qed

section \<open>C9: deleting an uploaded file\<close>

text \<open>
  Claim C9 says that \<open>DeleteFile\<close> never removes a file outside the upload directory, also for
  a path that starts with the directory's name and leaves it through \<open>..\<close>. The check is
  \<open>strings.HasPrefix(filePath, uc.UploadDir)\<close> on the text of the path ("Only delete files
  within our upload directory for security"): \<open>uploads/products/../../config/app.env\<close> passes
  it, resolves to \<open>config/app.env\<close> outside \<open>uploads/products\<close>, and is removed.
\<close>

theorem DeleteFile_escapes_upload_dir:
  "\<not> inside_dir (UploadDir NewUploadConfig) ''uploads/products/../../config/app.env'' \<and>
   resolve ''uploads/products/../../config/app.env'' = (False, [''config'', ''app.env'']) \<and>
   (False, [''config'', ''app.env'']) \<in> fs0 \<and>
   DeleteFile NewUploadConfig fs0 ''uploads/products/../../config/app.env'' =
     (fs0 - {(False, [''config'', ''app.env''])}, None)"
  by (simp add: inside_dir_def resolve_def DeleteFile_def os_Remove_def NewUploadConfig_def fs0_def
      Let_def)

text \<open>The two refusals the claim also names do hold.\<close>

lemma DeleteFile_refusals:
  "DeleteFile uc fs [] = (fs, None)"
  "filePath \<noteq> [] \<Longrightarrow> \<not> prefix (UploadDir uc) filePath \<Longrightarrow>
     DeleteFile uc fs filePath = (fs, Some OutsideUploadDir)"
  by (simp_all add: DeleteFile_def)

section \<open>C10: the role of a registered user\<close>

text \<open>
  Claim C10. \<open>Register\<close> takes the request and nothing about the caller. When the email is not
  taken, the password hashes and the insert succeeds, the stored and returned user has the
  role of the request, whatever non-empty string that is, and the role \<open>user\<close> when the request
  has none; so a request with role \<open>admin\<close> creates an administrator.
\<close>

theorem Register_role_passthrough:
  assumes "userRepo_GetByEmail st (cur_Email req) = Inr None"
      and "bcrypt e (cur_Password req) = Some hashed"
      and "UserInsertOne \<notin> failing st"
  shows "\<exists>user. Register e st req = (st\<lparr>users := users st @ [user]\<rparr>, Inr user) \<and>
           u_Email user = cur_Email req \<and>
           u_Role user = (if cur_Role req = [] then ''user'' else cur_Role req) \<and>
           (cur_Role req = ''admin'' \<longrightarrow> u_Role user = ''admin'')"
  using assms by (simp add: Register_def userRepo_Create_def Let_def)

theorem Register_role_passthrough_witness:
  "map_sum id u_Role (snd (Register env0 storeA req_admin)) = Inr ''admin'' \<and>
   map u_Role (users (fst (Register env0 storeA req_admin))) = [''admin'']"
proof -
  have g: "userRepo_GetByEmail storeA (cur_Email req_admin) = Inr None"
    by (simp add: userRepo_GetByEmail_def storeA_def)
  have b: "bcrypt env0 (cur_Password req_admin) = Some (''$2a$'' @ rev (cur_Password req_admin))"
    by (simp add: env0_def)
  have i: "UserInsertOne \<notin> failing storeA"
    by (simp add: storeA_def)
  have u: "users storeA = []"
    by (simp add: storeA_def)
  have r: "cur_Role req_admin = ''admin''"
    by (simp add: req_admin_def)
  from Register_role_passthrough [OF g b i] u r show ?thesis
    by auto
qed

end
